theory Spec2Isabelle
  imports Main
begin

section \<open>The user schema (index.js, userSchema)\<close>

text \<open>
  Each sub-document of the schema is a record whose fields are optional, as Mongoose
  stores whatever keys the caller sent. \<open>telNo\<close> is marked required in the schema, but
  the update routes go through \<open>findByIdAndUpdate\<close>, which does not run validators;
  the field is therefore optional here as well.
\<close>

record profile_item =
  photo_url :: "string option"
  about_me :: "string option"
  telNo :: "string option"
  address :: "string option"

record education_item =
  school_name :: "string option"
  course :: "string option"

record work_item =
  company :: "string option"
  position :: "string option"
  year :: "string option"
  job_description :: "string option"

record skill_item =
  list_skills :: "string option"
  skills_level :: "int option"

record portfolio_item =
  image_url :: "string option"
  project_title :: "string option"
  project_url :: "string option"

text \<open>
  The identifier of a document is the number its 24 hexadecimal digits write; the store
  hands out a fresh one per insert.
\<close>

type_synonym object_id = nat

record user =
  doc_id :: object_id
  first_name :: string
  last_name :: string
  username :: string
  userPassword :: string
  deleted :: bool
  profile :: "profile_item list"
  education :: "education_item list"
  work_experience :: "work_item list"
  skills :: "skill_item list"
  portfolio :: "portfolio_item list"

section \<open>Requests and responses\<close>

text \<open>
  \<open>req.body\<close> after \<open>express.json()\<close>: every key may be missing (\<open>None\<close> is
  JavaScript's \<open>undefined\<close>). The record lists every key the schema knows, so that a
  body can carry keys a route does not read; bodies whose values have another JSON type
  than the schema's are not part of this model.
\<close>

record req_body =
  body_first_name :: "string option"
  body_last_name :: "string option"
  body_username :: "string option"
  body_userPassword :: "string option"
  body_deleted :: "bool option"
  body_profile :: "profile_item list option"
  body_education :: "education_item list option"
  body_work_experience :: "work_item list option"
  body_skills :: "skill_item list option"
  body_portfolio :: "portfolio_item list option"

text \<open>JavaScript truthiness of a string-valued key: \<open>undefined\<close> and \<open>""\<close> are falsy.\<close>

definition truthy :: "string option \<Rightarrow> bool" where
  "truthy v = (case v of None \<Rightarrow> False | Some s \<Rightarrow> s \<noteq> [])"

datatype store_error = DuplicateKey | CastError

text \<open>The JSON documents the routes send back.\<close>

datatype payload =
    Message string
  | MessageError string store_error
  | UserDoc user
  | MessageUser string user
  | AllUsers "user list"

datatype response = Response (status: nat) (json: payload)

section \<open>The document store\<close>

text \<open>
  Modelled from the spec: the Document Store (Mongoose and MongoDB, which are not part of
  the repository's sources). It is one collection of user documents in store-native order
  and exposes find-by-filter, find-by-id-and-update with return-updated semantics, and
  insert, with a unique-index constraint on \<open>username\<close>. Reads and single-document
  updates of the in-memory collection cannot fail; an insert fails on a unique-index
  conflict.
\<close>

record store =
  docs :: "user list"
  next_id :: object_id

text \<open>Modelled from the spec: find-by-filter, first match in store order, or null.\<close>

definition findOne :: "(user \<Rightarrow> bool) \<Rightarrow> store \<Rightarrow> store_error + user option" where
  "findOne p s = Inr (List.find p (docs s))"

text \<open>Modelled from the spec: find-by-filter, every match in store order.\<close>

definition find_all :: "(user \<Rightarrow> bool) \<Rightarrow> store \<Rightarrow> store_error + user list" where
  "find_all p s = Inr (filter p (docs s))"

text \<open>The update documents the routes pass to \<open>findByIdAndUpdate\<close>.\<close>

datatype update =
    SetProfile "profile_item list option"
  | SetEducation "education_item list option"
  | SetPortfolio "portfolio_item list option"
  | SetDeleted bool

text \<open>
  What an update document does to the matched document. A supplied sequence replaces the
  whole field. A key whose value is \<open>undefined\<close> is dropped from the update document
  before it is sent (the library's treatment of \<open>{ $set: { profile: undefined } }\<close>;
  Mongoose is not part of the repository's sources), so an omitted field is left as it
  was.
\<close>

fun apply_update :: "update \<Rightarrow> user \<Rightarrow> user" where
  "apply_update (SetProfile v) u = (case v of None \<Rightarrow> u | Some xs \<Rightarrow> u\<lparr>profile := xs\<rparr>)"
| "apply_update (SetEducation v) u = (case v of None \<Rightarrow> u | Some xs \<Rightarrow> u\<lparr>education := xs\<rparr>)"
| "apply_update (SetPortfolio v) u = (case v of None \<Rightarrow> u | Some xs \<Rightarrow> u\<lparr>portfolio := xs\<rparr>)"
| "apply_update (SetDeleted d) u = u\<lparr>deleted := d\<rparr>"

fun update_first :: "(user \<Rightarrow> bool) \<Rightarrow> (user \<Rightarrow> user) \<Rightarrow> user list \<Rightarrow> user list" where
  "update_first p f [] = []"
| "update_first p f (u # us) = (if p u then f u # us else u # update_first p f us)"

text \<open>
  The \<open>:id\<close> of a route is a string of the URL. The store casts it to an identifier
  before it searches (the library's ObjectId cast; Mongoose is not part of the
  repository's sources): a string of exactly 24 hexadecimal digits, in either case, names
  an identifier, and on any other string the store call throws a cast error.
\<close>

definition hex_digit :: "char \<Rightarrow> nat option" where
  "hex_digit c =
     (let n = (of_char c :: nat)
      in if 48 \<le> n \<and> n \<le> 57 then Some (n - 48)
         else if 65 \<le> n \<and> n \<le> 70 then Some (n - 55)
         else if 97 \<le> n \<and> n \<le> 102 then Some (n - 87)
         else None)"

fun hex_value :: "nat \<Rightarrow> string \<Rightarrow> nat option" where
  "hex_value acc [] = Some acc"
| "hex_value acc (c # cs) =
     (case hex_digit c of None \<Rightarrow> None | Some d \<Rightarrow> hex_value (16 * acc + d) cs)"

definition castObjectId :: "string \<Rightarrow> store_error + object_id" where
  "castObjectId i =
     (if length i = 24
      then (case hex_value 0 i of None \<Rightarrow> Inl CastError | Some n \<Rightarrow> Inr n)
      else Inl CastError)"

text \<open>The document with a given identifier, first match in store order.\<close>

definition lookup_id :: "object_id \<Rightarrow> store \<Rightarrow> user option" where
  "lookup_id oid s = List.find (\<lambda>u. doc_id u = oid) (docs s)"

text \<open>Modelled from the spec: fetch by identifier, or null.\<close>

definition findById :: "string \<Rightarrow> store \<Rightarrow> store_error + user option" where
  "findById i s =
     (case castObjectId i of
        Inl e \<Rightarrow> Inl e
      | Inr oid \<Rightarrow> Inr (lookup_id oid s))"

text \<open>
  Modelled from the spec: find-by-id-and-update with return-updated semantics,
  \<open>findByIdAndUpdate(id, update, { new: true })\<close>. The search is by identifier alone;
  the result is the updated document, or null when no document has the identifier.
\<close>

definition findByIdAndUpdate ::
  "string \<Rightarrow> update \<Rightarrow> store \<Rightarrow> store_error + (user option \<times> store)" where
  "findByIdAndUpdate i upd s =
     (case castObjectId i of
        Inl e \<Rightarrow> Inl e
      | Inr oid \<Rightarrow>
          (case lookup_id oid s of
             None \<Rightarrow> Inr (None, s)
           | Some u \<Rightarrow>
               Inr (Some (apply_update upd u),
                    s\<lparr>docs := update_first (\<lambda>u. doc_id u = oid) (apply_update upd) (docs s)\<rparr>)))"

text \<open>
  \<open>new UserProfile({first_name, last_name, username, userPassword})\<close>: the schema
  defaults fill every other field (\<open>deleted: false\<close>, empty arrays).
\<close>

definition new_UserProfile :: "object_id \<Rightarrow> string \<Rightarrow> string \<Rightarrow> string \<Rightarrow> string \<Rightarrow> user" where
  "new_UserProfile i fn ln un pw =
     \<lparr>doc_id = i, first_name = fn, last_name = ln, username = un, userPassword = pw,
      deleted = False, profile = [], education = [], work_experience = [], skills = [],
      portfolio = []\<rparr>"

text \<open>
  Modelled from the spec: insert, refused by the unique index when the username is
  already stored.
\<close>

definition save :: "user \<Rightarrow> store \<Rightarrow> store_error + (user \<times> store)" where
  "save u s =
     (if username u \<in> set (map username (docs s)) then Inl DuplicateKey
      else Inr (u, s\<lparr>docs := docs s @ [u], next_id := Suc (next_id s)\<rparr>))"

text \<open>
  The stores the routes can reach from the empty collection: identifiers and usernames are
  unique, and the next identifier is fresh.
\<close>

definition store_ok :: "store \<Rightarrow> bool" where
  "store_ok s \<longleftrightarrow>
     distinct (map doc_id (docs s)) \<and> distinct (map username (docs s)) \<and>
     (\<forall>i\<in>set (map doc_id (docs s)). i < next_id s)"

section \<open>The password hasher\<close>

text \<open>
  The bcrypt library is a parameter of the model: \<open>genSalt\<close> takes the cost factor and
  the randomness it draws, \<open>hash\<close> the password and the salt, \<open>compare\<close> the password
  and a stored hash.
\<close>

record 'r hasher =
  bcrypt_genSalt :: "nat \<Rightarrow> 'r \<Rightarrow> string"
  bcrypt_hash :: "string \<Rightarrow> string \<Rightarrow> string"
  bcrypt_compare :: "string \<Rightarrow> string \<Rightarrow> bool"


section \<open>The routes (index.js)\<close>

text \<open>
  Every route takes the store and returns the response with the store it leaves behind.
  A \<open>catch\<close> block is the \<open>Inl\<close> branch of the store call it guards.
\<close>

text \<open>\<open>POST /signup\<close>\<close>

definition signup :: "'r hasher \<Rightarrow> 'r \<Rightarrow> 'a req_body_scheme \<Rightarrow> store \<Rightarrow> response \<times> store" where
  "signup H rnd b s =
     (if \<not> truthy (body_first_name b) \<or> \<not> truthy (body_last_name b) \<or>
         \<not> truthy (body_username b) \<or> \<not> truthy (body_userPassword b)
      then (Response 400 (Message ''All fields are required''), s)
      else
        (case findOne (\<lambda>u. username u = the (body_username b)) s of
           Inl error \<Rightarrow> (Response 400 (MessageError ''Error creating user'' error), s)
         | Inr (Some existingUser) \<Rightarrow> (Response 400 (Message ''Username already exists''), s)
         | Inr None \<Rightarrow>
             (let salt = bcrypt_genSalt H 10 rnd;
                  hashedPassword = bcrypt_hash H (the (body_userPassword b)) salt;
                  newUser = new_UserProfile (next_id s) (the (body_first_name b))
                              (the (body_last_name b)) (the (body_username b)) hashedPassword
              in case save newUser s of
                   Inl error \<Rightarrow> (Response 400 (MessageError ''Error creating user'' error), s)
                 | Inr (insertedUser, s') \<Rightarrow> (Response 201 (UserDoc insertedUser), s'))))"

text \<open>\<open>POST /updateProfile/:id\<close>, \<open>POST /education/:id\<close>, \<open>POST /portfolio/:id\<close>\<close>

definition updateProfile :: "string \<Rightarrow> 'a req_body_scheme \<Rightarrow> store \<Rightarrow> response \<times> store" where
  "updateProfile i b s =
     (case findByIdAndUpdate i (SetProfile (body_profile b)) s of
        Inl error \<Rightarrow> (Response 500 (MessageError ''Server error'' error), s)
      | Inr (Some updatedUser, s') \<Rightarrow> (Response 200 (UserDoc updatedUser), s')
      | Inr (None, s') \<Rightarrow> (Response 404 (Message ''User not found''), s'))"

definition updateEducation :: "string \<Rightarrow> 'a req_body_scheme \<Rightarrow> store \<Rightarrow> response \<times> store" where
  "updateEducation i b s =
     (case findByIdAndUpdate i (SetEducation (body_education b)) s of
        Inl error \<Rightarrow> (Response 500 (MessageError ''Server error'' error), s)
      | Inr (Some updatedEduc, s') \<Rightarrow> (Response 200 (UserDoc updatedEduc), s')
      | Inr (None, s') \<Rightarrow> (Response 404 (Message ''User not found''), s'))"

definition updatePortfolio :: "string \<Rightarrow> 'a req_body_scheme \<Rightarrow> store \<Rightarrow> response \<times> store" where
  "updatePortfolio i b s =
     (case findByIdAndUpdate i (SetPortfolio (body_portfolio b)) s of
        Inl error \<Rightarrow> (Response 500 (MessageError ''Server error'' error), s)
      | Inr (Some updatedPort, s') \<Rightarrow> (Response 200 (UserDoc updatedPort), s')
      | Inr (None, s') \<Rightarrow> (Response 404 (Message ''User not found''), s'))"

text \<open>\<open>POST /login\<close>\<close>

definition login :: "'r hasher \<Rightarrow> 'a req_body_scheme \<Rightarrow> store \<Rightarrow> response \<times> store" where
  "login H b s =
     (if \<not> truthy (body_username b) \<or> \<not> truthy (body_userPassword b)
      then (Response 400 (Message ''Both username and password are required''), s)
      else
        (case findOne (\<lambda>u. username u = the (body_username b)) s of
           Inl error \<Rightarrow> (Response 500 (MessageError ''Error during login'' error), s)
         | Inr None \<Rightarrow> (Response 404 (Message ''User not found or deleted''), s)
         | Inr (Some u) \<Rightarrow>
             (if deleted u then (Response 404 (Message ''User not found or deleted''), s)
              else if \<not> bcrypt_compare H (the (body_userPassword b)) (userPassword u)
              then (Response 400 (Message ''Invalid credentials''), s)
              else (Response 200 (MessageUser ''Login successful'' u), s))))"

text \<open>\<open>GET /\<close>\<close>

definition listUsers :: "store \<Rightarrow> response \<times> store" where
  "listUsers s =
     (case find_all (\<lambda>u. deleted u = False) s of
        Inl err \<Rightarrow> (Response 500 (MessageError ''Database query error'' err), s)
      | Inr users \<Rightarrow> (Response 200 (AllUsers users), s))"

text \<open>\<open>DELETE /delete/:id\<close>\<close>

definition softDelete :: "string \<Rightarrow> store \<Rightarrow> response \<times> store" where
  "softDelete i s =
     (case findByIdAndUpdate i (SetDeleted True) s of
        Inl error \<Rightarrow> (Response 500 (MessageError ''Server error'' error), s)
      | Inr (Some deletedUser, s') \<Rightarrow>
          (Response 200 (MessageUser ''User soft deleted'' deletedUser), s')
      | Inr (None, s') \<Rightarrow> (Response 404 (Message ''User not found''), s'))"

section \<open>A concrete instance\<close>

text \<open>
  A small hasher that meets the contract (it is not bcrypt: it keeps the password in the
  clear behind the salt), and a store with one active and one soft-deleted account, on
  which the routes are run at concrete inputs.
\<close>

definition demo_hasher :: "string hasher" where
  "demo_hasher =
     \<lparr>bcrypt_genSalt = (\<lambda>rounds r. replicate rounds (CHR ''*'') @ r),
      bcrypt_hash = (\<lambda>pw salt. salt @ CHR ''$'' # pw),
      bcrypt_compare = (\<lambda>pw h. length pw < length h \<and> drop (length h - length pw) h = pw)\<rparr>"

definition jane :: user where
  "jane =
     (new_UserProfile 0 ''Jane'' ''Doe'' ''jdoe'' ''**********salt$secret123'')
       \<lparr>education := [\<lparr>school_name = Some ''Tech'', course = Some ''CS''\<rparr>]\<rparr>"

definition bob :: user where
  "bob = (new_UserProfile 1 ''Bob'' ''Roe'' ''broe'' ''**********pepper$hunter2'')\<lparr>deleted := True\<rparr>"

definition demo_store :: store where
  "demo_store = \<lparr>docs = [jane, bob], next_id = 2\<rparr>"

definition empty_body :: req_body where
  "empty_body =
     \<lparr>body_first_name = None, body_last_name = None, body_username = None,
      body_userPassword = None, body_deleted = None, body_profile = None,
      body_education = None, body_work_experience = None, body_skills = None,
      body_portfolio = None\<rparr>"

definition signup_body :: "string \<Rightarrow> string \<Rightarrow> string \<Rightarrow> string \<Rightarrow> req_body" where
  "signup_body fn ln un pw =
     empty_body\<lparr>body_first_name := Some fn, body_last_name := Some ln,
       body_username := Some un, body_userPassword := Some pw\<rparr>"

definition login_body :: "string \<Rightarrow> string \<Rightarrow> req_body" where
  "login_body un pw = empty_body\<lparr>body_username := Some un, body_userPassword := Some pw\<rparr>"

definition phone :: profile_item where
  "phone = \<lparr>photo_url = None, about_me = None, telNo = Some ''555'', address = None\<rparr>"

definition profile_body :: req_body where
  "profile_body = empty_body\<lparr>body_profile := Some [phone]\<rparr>"

definition jane_id :: string where
  "jane_id = ''000000000000000000000000''"

definition bob_id :: string where
  "bob_id = ''000000000000000000000001''"

definition ann_body :: req_body where
  "ann_body =
     (signup_body ''Ann'' ''Lee'' ''ann'' ''pw'')
       \<lparr>body_deleted := Some True, body_profile := Some [phone]\<rparr>"

section \<open>Facts about the store and the routes\<close>

lemma find_None_conv: "List.find p xs = None \<longleftrightarrow> (\<forall>x\<in>set xs. \<not> p x)"
  by (induction xs) auto

lemma find_Some_mem: "List.find p xs = Some x \<Longrightarrow> x \<in> set xs \<and> p x"
  by (induction xs) (auto split: if_splits)

lemma update_first_nth:
  "List.find p xs = Some r \<Longrightarrow>
   \<exists>k<length xs. xs ! k = r \<and> (\<forall>f. update_first p f xs = xs[k := f r])"
proof (induction xs)
  case Nil
  then show ?case by simp
next
  case (Cons x xs)
  show ?case
  proof (cases "p x")
    case True
    with Cons.prems have "x = r" by simp
    with True have "(x # xs) ! 0 = r \<and> (\<forall>f. update_first p f (x # xs) = (x # xs)[0 := f r])"
      by simp
    then show ?thesis by blast
  next
    case False
    with Cons.prems have "List.find p xs = Some r" by simp
    from Cons.IH [OF this] obtain k where
      k: "k < length xs" "xs ! k = r" "\<forall>f. update_first p f xs = xs[k := f r]"
      by blast
    with False have "Suc k < length (x # xs) \<and> (x # xs) ! Suc k = r \<and>
        (\<forall>f. update_first p f (x # xs) = (x # xs)[Suc k := f r])"
      by simp
    then show ?thesis by blast
  qed
qed

lemma find_update_first:
  "List.find p xs = Some r \<Longrightarrow> p (f r) \<Longrightarrow> List.find p (update_first p f xs) = Some (f r)"
  by (induction xs) (auto split: if_splits)

lemma not_truthy_conv: "\<not> truthy v \<longleftrightarrow> v = None \<or> v = Some []"
  by (cases v) (simp_all add: truthy_def)

lemma truthy_Some [simp]: "truthy (Some x) \<longleftrightarrow> x \<noteq> []"
  by (simp add: truthy_def)

lemma findOne_username_None:
  "\<forall>u\<in>set (docs s). username u \<noteq> un \<Longrightarrow> findOne (\<lambda>u. username u = un) s = Inr None"
  by (simp add: findOne_def find_None_conv)

lemma findOne_username_Some:
  assumes "u \<in> set (docs s)" and "username u = un"
  shows "\<exists>v. findOne (\<lambda>u. username u = un) s = Inr (Some v)"
proof (cases "List.find (\<lambda>u. username u = un) (docs s)")
  case None
  with assms show ?thesis by (auto simp: find_None_conv)
next
  case (Some v)
  then show ?thesis by (simp add: findOne_def)
qed

lemma save_new_username:
  "\<forall>u\<in>set (docs s). username u \<noteq> username n \<Longrightarrow>
   save n s = Inr (n, s\<lparr>docs := docs s @ [n], next_id := Suc (next_id s)\<rparr>)"
  by (auto simp: save_def)

lemma signup_cases:
  "signup H rnd b s = (Response 400 (Message ''All fields are required''), s) \<or>
   signup H rnd b s = (Response 400 (Message ''Username already exists''), s) \<or>
   (\<exists>e. signup H rnd b s = (Response 400 (MessageError ''Error creating user'' e), s)) \<or>
   (truthy (body_first_name b) \<and> truthy (body_last_name b) \<and> truthy (body_username b) \<and>
    truthy (body_userPassword b) \<and>
    signup H rnd b s =
      (let n = new_UserProfile (next_id s) (the (body_first_name b)) (the (body_last_name b))
                 (the (body_username b))
                 (bcrypt_hash H (the (body_userPassword b)) (bcrypt_genSalt H 10 rnd))
       in (Response 201 (UserDoc n), s\<lparr>docs := docs s @ [n], next_id := Suc (next_id s)\<rparr>)))"
  by (auto simp: signup_def findOne_def save_def Let_def split: option.splits)

lemma doc_id_apply_update [simp]: "doc_id (apply_update upd u) = doc_id u"
  by (cases upd) (simp_all split: option.splits)

lemma lookup_id_None_conv:
  "lookup_id oid s = None \<longleftrightarrow> (\<forall>u\<in>set (docs s). doc_id u \<noteq> oid)"
  by (simp add: lookup_id_def find_None_conv)

lemma lookup_id_after_update:
  assumes "lookup_id oid s = Some r"
  shows "lookup_id oid
           (s\<lparr>docs := update_first (\<lambda>u. doc_id u = oid) (apply_update upd) (docs s)\<rparr>)
         = Some (apply_update upd r)"
proof -
  from assms have f: "List.find (\<lambda>u. doc_id u = oid) (docs s) = Some r"
    by (simp add: lookup_id_def)
  then have "doc_id r = oid" using find_Some_mem [of "\<lambda>u. doc_id u = oid"] by blast
  then have "doc_id (apply_update upd r) = oid" by simp
  with find_update_first [OF f, of "apply_update upd"] show ?thesis
    by (simp add: lookup_id_def)
qed

lemma findById_resolved:
  "findById i s = Inr (Some r) \<longleftrightarrow> (\<exists>oid. castObjectId i = Inr oid \<and> lookup_id oid s = Some r)"
  by (auto simp: findById_def split: sum.splits)

lemma findByIdAndUpdate_malformed:
  "castObjectId i = Inl e \<Longrightarrow> findByIdAndUpdate i upd s = Inl e"
  by (simp add: findByIdAndUpdate_def)

lemma findByIdAndUpdate_unknown:
  "castObjectId i = Inr oid \<Longrightarrow> \<forall>u\<in>set (docs s). doc_id u \<noteq> oid \<Longrightarrow>
   findByIdAndUpdate i upd s = Inr (None, s)"
proof -
  assume c: "castObjectId i = Inr oid" and "\<forall>u\<in>set (docs s). doc_id u \<noteq> oid"
  then have "lookup_id oid s = None" by (simp add: lookup_id_None_conv)
  with c show ?thesis by (simp add: findByIdAndUpdate_def)
qed

lemma findByIdAndUpdate_resolved:
  assumes "findById i s = Inr (Some r)"
  shows "\<exists>k<length (docs s). docs s ! k = r \<and>
           (\<forall>upd. findByIdAndUpdate i upd s =
                    Inr (Some (apply_update upd r), s\<lparr>docs := (docs s)[k := apply_update upd r]\<rparr>) \<and>
                  findById i (s\<lparr>docs := (docs s)[k := apply_update upd r]\<rparr>) =
                    Inr (Some (apply_update upd r)))"
proof -
  from assms obtain oid where c: "castObjectId i = Inr oid" and l: "lookup_id oid s = Some r"
    by (auto simp: findById_resolved)
  from l have "List.find (\<lambda>u. doc_id u = oid) (docs s) = Some r"
    by (simp add: lookup_id_def)
  from update_first_nth [OF this]
  obtain k where k: "k < length (docs s)" "docs s ! k = r"
    "\<forall>f. update_first (\<lambda>u. doc_id u = oid) f (docs s) = (docs s)[k := f r]"
    by blast
  have "findByIdAndUpdate i upd s =
          Inr (Some (apply_update upd r), s\<lparr>docs := (docs s)[k := apply_update upd r]\<rparr>) \<and>
        findById i (s\<lparr>docs := (docs s)[k := apply_update upd r]\<rparr>) =
          Inr (Some (apply_update upd r))"
    for upd
    using lookup_id_after_update [OF l, of upd] c l k(3)
    by (simp add: findByIdAndUpdate_def findById_def)
  with k(1,2) show ?thesis by blast
qed

lemma same_doc_same_store:
  "k < length (docs s) \<Longrightarrow> docs s ! k = r \<Longrightarrow> s\<lparr>docs := (docs s)[k := r]\<rparr> = s"
  by (simp add: list_update_same_conv)

subsection \<open>The store invariant\<close>

text \<open>
  The invariant holds of the empty store and every route keeps it. In such a store each
  stored record is the one its identifier resolves to and the one its username finds.
\<close>

lemma find_distinct_key:
  "distinct (map f xs) \<Longrightarrow> x \<in> set xs \<Longrightarrow> List.find (\<lambda>y. f y = f x) xs = Some x"
  by (induction xs) (auto simp: image_iff)

lemma lookup_id_stored:
  "store_ok s \<Longrightarrow> r \<in> set (docs s) \<Longrightarrow> lookup_id (doc_id r) s = Some r"
  by (simp add: store_ok_def lookup_id_def find_distinct_key)

lemma findById_stored:
  "store_ok s \<Longrightarrow> r \<in> set (docs s) \<Longrightarrow> castObjectId i = Inr (doc_id r) \<Longrightarrow>
   findById i s = Inr (Some r)"
  by (simp add: findById_def lookup_id_stored)

lemma findOne_stored:
  "store_ok s \<Longrightarrow> u \<in> set (docs s) \<Longrightarrow>
   findOne (\<lambda>v. username v = username u) s = Inr (Some u)"
  by (simp add: store_ok_def findOne_def find_distinct_key)

lemma username_apply_update [simp]: "username (apply_update upd u) = username u"
  by (cases upd) (simp_all split: option.splits)

lemma map_update_first:
  "(\<And>u. g (f u) = g u) \<Longrightarrow> map g (update_first p f xs) = map g xs"
  by (induction xs) simp_all

lemma store_ok_update_first:
  assumes "store_ok s"
  shows "store_ok (s\<lparr>docs := update_first p (apply_update upd) (docs s)\<rparr>)"
proof -
  let ?s' = "s\<lparr>docs := update_first p (apply_update upd) (docs s)\<rparr>"
  have ids: "map doc_id (docs ?s') = map doc_id (docs s)"
    using map_update_first [of doc_id "apply_update upd"] by simp
  have names: "map username (docs ?s') = map username (docs s)"
    using map_update_first [of username "apply_update upd"] by simp
  have "next_id ?s' = next_id s" by simp
  with ids names assms show ?thesis unfolding store_ok_def by metis
qed

lemma store_ok_findByIdAndUpdate:
  assumes "store_ok s" and "findByIdAndUpdate i upd s = Inr (r, s')"
  shows "store_ok s'"
  using assms store_ok_update_first [OF assms(1)]
  by (auto simp: findByIdAndUpdate_def split: sum.splits option.splits)

lemma store_ok_initial: "store_ok \<lparr>docs = [], next_id = 0\<rparr>"
  by (simp add: store_ok_def)

lemma store_ok_signup: "store_ok s \<Longrightarrow> store_ok (snd (signup H rnd b s))"
  using signup_cases [of H rnd b s]
  by (auto simp: Let_def store_ok_def new_UserProfile_def findOne_def signup_def save_def
      find_None_conv split: option.splits if_splits)

lemma store_ok_updateProfile: "store_ok s \<Longrightarrow> store_ok (snd (updateProfile i b s))"
  using store_ok_findByIdAndUpdate [of s i "SetProfile (body_profile b)"]
  by (auto simp: updateProfile_def split: sum.splits option.splits prod.splits)

lemma store_ok_updateEducation: "store_ok s \<Longrightarrow> store_ok (snd (updateEducation i b s))"
  using store_ok_findByIdAndUpdate [of s i "SetEducation (body_education b)"]
  by (auto simp: updateEducation_def split: sum.splits option.splits prod.splits)

lemma store_ok_updatePortfolio: "store_ok s \<Longrightarrow> store_ok (snd (updatePortfolio i b s))"
  using store_ok_findByIdAndUpdate [of s i "SetPortfolio (body_portfolio b)"]
  by (auto simp: updatePortfolio_def split: sum.splits option.splits prod.splits)

lemma store_ok_softDelete: "store_ok s \<Longrightarrow> store_ok (snd (softDelete i s))"
  using store_ok_findByIdAndUpdate [of s i "SetDeleted True"]
  by (auto simp: softDelete_def split: sum.splits option.splits prod.splits)

lemma login_store: "snd (login H b s) = s"
  by (simp add: login_def findOne_def split: option.splits)

lemma listUsers_store: "snd (listUsers s) = s"
  by (simp add: listUsers_def find_all_def)

section \<open>Facts about the concrete instance\<close>


lemma demo_genSalt: "bcrypt_genSalt demo_hasher 10 r = ''**********'' @ r"
  by (simp add: demo_hasher_def numeral_eq_Suc)

lemma demo_hash: "bcrypt_hash demo_hasher pw salt = salt @ CHR ''$'' # pw"
  by (simp add: demo_hasher_def)

lemma demo_compare:
  "bcrypt_compare demo_hasher pw h \<longleftrightarrow> length pw < length h \<and> drop (length h - length pw) h = pw"
  by (simp add: demo_hasher_def)

lemmas demo_defs = demo_store_def jane_def bob_def new_UserProfile_def demo_genSalt demo_hash
  demo_compare signup_body_def login_body_def profile_body_def empty_body_def

lemma ann_created:
  "signup demo_hasher ''salt'' ann_body demo_store =
   (Response 201 (UserDoc (new_UserProfile 2 ''Ann'' ''Lee'' ''ann'' ''**********salt$pw'')),
    \<lparr>docs = [jane, bob, new_UserProfile 2 ''Ann'' ''Lee'' ''ann'' ''**********salt$pw''], next_id = 3\<rparr>)"
  by (simp add: signup_def findOne_def save_def Let_def demo_defs ann_body_def)

lemma findOne_jane: "findOne (\<lambda>u. username u = ''jdoe'') demo_store = Inr (Some jane)"
  by (simp add: findOne_def demo_store_def jane_def new_UserProfile_def)

lemma findOne_bob: "findOne (\<lambda>u. username u = ''broe'') demo_store = Inr (Some bob)"
  by (simp add: findOne_def demo_store_def jane_def bob_def new_UserProfile_def)

lemma castObjectId_jane: "castObjectId jane_id = Inr 0"
  by (simp add: castObjectId_def jane_id_def hex_digit_def)

lemma castObjectId_bob: "castObjectId bob_id = Inr 1"
  by (simp add: castObjectId_def bob_id_def hex_digit_def)

lemma castObjectId_abc: "castObjectId ''abc'' = Inl CastError"
  by (simp add: castObjectId_def)

lemma findById_jane: "findById jane_id demo_store = Inr (Some jane)"
  by (simp add: findById_def castObjectId_jane lookup_id_def demo_store_def jane_def
      new_UserProfile_def)

lemma findById_bob: "findById bob_id demo_store = Inr (Some bob)"
  by (simp add: findById_def castObjectId_bob lookup_id_def demo_store_def jane_def bob_def
      new_UserProfile_def)

lemma store_ok_demo: "store_ok demo_store"
  by (simp add: store_ok_def demo_store_def jane_def bob_def new_UserProfile_def)

lemma login_body_sel [simp]:
  "body_username (login_body un pw) = Some un" "body_userPassword (login_body un pw) = Some pw"
  by (simp_all add: login_body_def empty_body_def)

section \<open>Properties of the routes\<close>

subsection \<open>Signup\<close>



text \<open>
  C3. Signup answers 400 "Username already exists" (the spec's DuplicateUsernameError)
  whenever a stored record has the requested username. The lookup is by username alone:
  nothing is assumed about the record's \<open>deleted\<close> flag, so a soft-deleted record
  blocks the name as well. The four required fields pass the presence test, which the
  route runs first. The store is unchanged.
\<close>

theorem signup_duplicate_username:
  assumes "truthy (body_first_name b)" and "truthy (body_last_name b)"
    and "truthy (body_userPassword b)"
    and "body_username b = Some un" and "un \<noteq> []"
    and "u \<in> set (docs s)" and "username u = un"
  shows "signup H rnd b s = (Response 400 (Message ''Username already exists''), s)"
proof -
  from assms(6,7) obtain v where "findOne (\<lambda>u. username u = un) s = Inr (Some v)"
    using findOne_username_Some by blast
  with assms(1-5) show ?thesis by (simp add: signup_def)
qed

theorem signup_duplicate_username_witness:
  "deleted bob \<and> username bob = ''broe'' \<and>
   signup demo_hasher ''salt'' (signup_body ''Bo'' ''Roe'' ''broe'' ''pw'') demo_store
     = (Response 400 (Message ''Username already exists''), demo_store)"
proof -
  have "bob \<in> set (docs demo_store)" by (simp add: demo_store_def)
  moreover have "username bob = ''broe''" "deleted bob" by (simp_all add: bob_def new_UserProfile_def)
  ultimately show ?thesis
    using signup_duplicate_username [where b = "signup_body ''Bo'' ''Roe'' ''broe'' ''pw''"
        and un = "''broe''" and u = bob and s = demo_store and H = demo_hasher and rnd = "''salt''"]
    by (simp add: signup_body_def empty_body_def)
qed

text \<open>
  C7. Signup with any of the four required fields (first name, last name, username,
  password) absent or empty answers 400 "All fields are required" (the spec's
  ValidationError) and leaves the store as it was: no record is created.
\<close>

theorem signup_missing_field:
  assumes "v \<in> {body_first_name b, body_last_name b, body_username b, body_userPassword b}"
    and "v = None \<or> v = Some ''''"
  shows "signup H rnd b s = (Response 400 (Message ''All fields are required''), s)"
proof -
  from assms(2) have "\<not> truthy v" by (simp add: not_truthy_conv)
  with assms(1) have "\<not> truthy (body_first_name b) \<or> \<not> truthy (body_last_name b) \<or>
      \<not> truthy (body_username b) \<or> \<not> truthy (body_userPassword b)"
    by auto
  then show ?thesis unfolding signup_def by (simp only: if_True)
qed

theorem signup_missing_field_witness:
  "signup demo_hasher ''salt'' (signup_body ''Ann'' '''' ''ann'' ''pw'') demo_store
   = (Response 400 (Message ''All fields are required''), demo_store)"
  using signup_missing_field [of "Some ''''" "signup_body ''Ann'' '''' ''ann'' ''pw''"
      demo_hasher "''salt''" demo_store]
  by (simp add: signup_body_def empty_body_def)

text \<open>
  C8. Every successful signup (one answered 201) appends one record to the store with
  \<open>deleted = false\<close> and all five sub-sequences empty, whatever else the body holds
  (the body is arbitrary, and may carry \<open>deleted\<close>, \<open>profile\<close> or any further
  key), and the response is that stored record in full.
\<close>

theorem signup_success_record:
  assumes "status (fst (signup H rnd b s)) = 201"
  shows "\<exists>u. signup H rnd b s =
            (Response 201 (UserDoc u), s\<lparr>docs := docs s @ [u], next_id := Suc (next_id s)\<rparr>) \<and>
          deleted u = False \<and> profile u = [] \<and> education u = [] \<and> work_experience u = [] \<and>
          skills u = [] \<and> portfolio u = [] \<and>
          body_first_name b = Some (first_name u) \<and> body_last_name b = Some (last_name u) \<and>
          body_username b = Some (username u)"
  using signup_cases [of H rnd b s] assms
  by (auto simp: Let_def new_UserProfile_def truthy_def split: option.splits)

theorem signup_success_record_witness:
  "body_deleted ann_body = Some True \<and> body_profile ann_body = Some [phone] \<and>
   status (fst (signup demo_hasher ''salt'' ann_body demo_store)) = 201 \<and>
   (\<exists>u. signup demo_hasher ''salt'' ann_body demo_store =
          (Response 201 (UserDoc u), \<lparr>docs = [jane, bob, u], next_id = 3\<rparr>) \<and>
        deleted u = False \<and> profile u = [] \<and> education u = [] \<and> work_experience u = [] \<and>
        skills u = [] \<and> portfolio u = [])"
proof -
  have h: "status (fst (signup demo_hasher ''salt'' ann_body demo_store)) = 201"
    by (simp add: ann_created)
  have e: "body_deleted ann_body = Some True" "body_profile ann_body = Some [phone]"
    by (simp_all add: ann_body_def signup_body_def empty_body_def)
  from signup_success_record [OF h] h e show ?thesis
    by (auto simp: demo_store_def)
qed

subsection \<open>Login\<close>

text \<open>
  C2. For a login request whose username and password both pass the presence test: if no
  record has the username, or the record the store finds is soft-deleted, the answer is
  404 "User not found or deleted" (NotFoundError), the same response in both cases; if the
  record is not deleted and the hash comparison fails, the answer is 400 "Invalid
  credentials" (InvalidCredentialsError); otherwise the answer is 200 with the stored
  record. The store is unchanged in every case.
\<close>

theorem login_outcomes:
  assumes "body_username b = Some un" and "un \<noteq> []"
    and "body_userPassword b = Some pw" and "pw \<noteq> []"
  shows "((\<forall>u\<in>set (docs s). username u \<noteq> un) \<longrightarrow>
            login H b s = (Response 404 (Message ''User not found or deleted''), s)) \<and>
         (\<forall>u. findOne (\<lambda>u. username u = un) s = Inr (Some u) \<and> deleted u \<longrightarrow>
            login H b s = (Response 404 (Message ''User not found or deleted''), s)) \<and>
         (\<forall>u. findOne (\<lambda>u. username u = un) s = Inr (Some u) \<and> \<not> deleted u \<and>
              \<not> bcrypt_compare H pw (userPassword u) \<longrightarrow>
            login H b s = (Response 400 (Message ''Invalid credentials''), s)) \<and>
         (\<forall>u. findOne (\<lambda>u. username u = un) s = Inr (Some u) \<and> \<not> deleted u \<and>
              bcrypt_compare H pw (userPassword u) \<longrightarrow>
            login H b s = (Response 200 (MessageUser ''Login successful'' u), s))"
  using assms by (simp add: login_def findOne_username_None)

theorem login_outcomes_witness:
  "login demo_hasher (login_body ''nobody'' ''secret123'') demo_store =
     (Response 404 (Message ''User not found or deleted''), demo_store) \<and>
   login demo_hasher (login_body ''broe'' ''hunter2'') demo_store =
     (Response 404 (Message ''User not found or deleted''), demo_store) \<and>
   login demo_hasher (login_body ''jdoe'' ''hunter2'') demo_store =
     (Response 400 (Message ''Invalid credentials''), demo_store) \<and>
   login demo_hasher (login_body ''jdoe'' ''secret123'') demo_store =
     (Response 200 (MessageUser ''Login successful'' jane), demo_store)"
proof -
  have "\<forall>u\<in>set (docs demo_store). username u \<noteq> ''nobody''"
    by (simp add: demo_store_def jane_def bob_def new_UserProfile_def)
  with login_outcomes [of "login_body ''nobody'' ''secret123''" "''nobody''" "''secret123''"
      demo_store demo_hasher]
  have a: "login demo_hasher (login_body ''nobody'' ''secret123'') demo_store =
      (Response 404 (Message ''User not found or deleted''), demo_store)"
    by simp
  have "deleted bob" by (simp add: bob_def)
  with login_outcomes [of "login_body ''broe'' ''hunter2''" "''broe''" "''hunter2''"
      demo_store demo_hasher] findOne_bob
  have b: "login demo_hasher (login_body ''broe'' ''hunter2'') demo_store =
      (Response 404 (Message ''User not found or deleted''), demo_store)"
    by simp
  have j: "\<not> deleted jane" "userPassword jane = ''**********salt$secret123''"
    by (simp_all add: jane_def new_UserProfile_def)
  have "\<not> bcrypt_compare demo_hasher ''hunter2'' (userPassword jane)"
    by (simp add: j demo_compare)
  with login_outcomes [of "login_body ''jdoe'' ''hunter2''" "''jdoe''" "''hunter2''"
      demo_store demo_hasher] findOne_jane j(1)
  have c: "login demo_hasher (login_body ''jdoe'' ''hunter2'') demo_store =
      (Response 400 (Message ''Invalid credentials''), demo_store)"
    by simp
  have "bcrypt_compare demo_hasher ''secret123'' (userPassword jane)"
    by (simp add: j demo_compare)
  with login_outcomes [of "login_body ''jdoe'' ''secret123''" "''jdoe''" "''secret123''"
      demo_store demo_hasher] findOne_jane j(1)
  have d: "login demo_hasher (login_body ''jdoe'' ''secret123'') demo_store =
      (Response 200 (MessageUser ''Login successful'' jane), demo_store)"
    by simp
  from a b c d show ?thesis by simp
qed

text \<open>
  C10. For a soft-deleted record, login answers the same 404 response for any two supplied
  passwords, correct or not: the \<open>deleted\<close> test comes before the hash comparison, so the
  password has no influence on the response or on the store.
\<close>

theorem login_deleted_ignores_password:
  assumes "findOne (\<lambda>u. username u = un) s = Inr (Some u)" and "deleted u"
    and "un \<noteq> []" and "body_username b1 = Some un" and "body_username b2 = Some un"
    and "body_userPassword b1 = Some pw1" and "pw1 \<noteq> []"
    and "body_userPassword b2 = Some pw2" and "pw2 \<noteq> []"
  shows "login H b1 s = login H b2 s \<and>
         login H b1 s = (Response 404 (Message ''User not found or deleted''), s)"
  using assms by (simp add: login_def)

theorem login_deleted_ignores_password_witness:
  "deleted bob \<and> bcrypt_compare demo_hasher ''hunter2'' (userPassword bob) \<and>
   \<not> bcrypt_compare demo_hasher ''guess'' (userPassword bob) \<and>
   login demo_hasher (login_body ''broe'' ''hunter2'') demo_store =
     login demo_hasher (login_body ''broe'' ''guess'') demo_store \<and>
   login demo_hasher (login_body ''broe'' ''hunter2'') demo_store =
     (Response 404 (Message ''User not found or deleted''), demo_store)"
proof -
  have d: "deleted bob" and p: "userPassword bob = ''**********pepper$hunter2''"
    by (simp_all add: bob_def new_UserProfile_def)
  have c: "bcrypt_compare demo_hasher ''hunter2'' (userPassword bob)"
    "\<not> bcrypt_compare demo_hasher ''guess'' (userPassword bob)"
    by (simp_all add: p demo_compare)
  have n: "''broe'' \<noteq> []" "''hunter2'' \<noteq> []" "''guess'' \<noteq> []" by simp_all
  from login_deleted_ignores_password [OF findOne_bob d n(1) login_body_sel(1) login_body_sel(1)
      login_body_sel(2) n(2) login_body_sel(2) n(3)] d c
  show ?thesis by blast
qed

subsection \<open>Updates\<close>

text \<open>
  C4, as stated, fails where the named key is omitted from the request: the route passes
  \<open>undefined\<close> to \<open>$set\<close>, nothing is sent to the store, and the field keeps its
  value instead of becoming empty. Here the education of the stored record is not empty,
  the body has no \<open>education\<close> key, and UpdateEducation answers 200 with the record and
  the store as they were.
\<close>

theorem update_omitted_field_counterexample:
  "body_education profile_body = None \<and> education jane \<noteq> [] \<and>
   findById jane_id demo_store = Inr (Some jane) \<and>
   updateEducation jane_id profile_body demo_store = (Response 200 (UserDoc jane), demo_store)"
proof -
  have "body_education profile_body = None" by (simp add: profile_body_def empty_body_def)
  moreover have "education jane \<noteq> []" by (simp add: jane_def)
  moreover have "updateEducation jane_id profile_body demo_store =
      (Response 200 (UserDoc jane), demo_store)"
    by (simp add: updateEducation_def findByIdAndUpdate_def castObjectId_jane lookup_id_def
        profile_body_def empty_body_def demo_store_def jane_def bob_def new_UserProfile_def)
  ultimately show ?thesis using findById_jane by simp
qed

text \<open>
  C4 (amended). For every record \<open>r\<close> that an identifier resolves to and each of
  UpdateProfile, UpdateEducation and UpdatePortfolio with a supplied sequence: the answer
  is 200 with \<open>r\<close> in which the named sub-sequence is the supplied one and every other
  field is as before; the store holds that record in place of \<open>r\<close>, every other
  document is untouched, and fetching the identifier afterwards gives the updated record.
  When the named key is omitted from the request, the answer is 200 with \<open>r\<close> itself and
  the stored record is left as it was.
\<close>

theorem update_replaces_named_field:
  assumes "findById i s = Inr (Some r)"
  shows "\<exists>k<length (docs s). docs s ! k = r \<and>
           (\<forall>xs. body_profile b = Some xs \<longrightarrow>
              updateProfile i b s =
                (Response 200 (UserDoc (r\<lparr>profile := xs\<rparr>)),
                 s\<lparr>docs := (docs s)[k := r\<lparr>profile := xs\<rparr>]\<rparr>) \<and>
              findById i (snd (updateProfile i b s)) = Inr (Some (r\<lparr>profile := xs\<rparr>))) \<and>
           (body_profile b = None \<longrightarrow> updateProfile i b s = (Response 200 (UserDoc r), s)) \<and>
           (\<forall>ys. body_education b = Some ys \<longrightarrow>
              updateEducation i b s =
                (Response 200 (UserDoc (r\<lparr>education := ys\<rparr>)),
                 s\<lparr>docs := (docs s)[k := r\<lparr>education := ys\<rparr>]\<rparr>) \<and>
              findById i (snd (updateEducation i b s)) = Inr (Some (r\<lparr>education := ys\<rparr>))) \<and>
           (body_education b = None \<longrightarrow> updateEducation i b s = (Response 200 (UserDoc r), s)) \<and>
           (\<forall>zs. body_portfolio b = Some zs \<longrightarrow>
              updatePortfolio i b s =
                (Response 200 (UserDoc (r\<lparr>portfolio := zs\<rparr>)),
                 s\<lparr>docs := (docs s)[k := r\<lparr>portfolio := zs\<rparr>]\<rparr>) \<and>
              findById i (snd (updatePortfolio i b s)) = Inr (Some (r\<lparr>portfolio := zs\<rparr>))) \<and>
           (body_portfolio b = None \<longrightarrow> updatePortfolio i b s = (Response 200 (UserDoc r), s))"
proof -
  from findByIdAndUpdate_resolved [OF assms]
  obtain k where k: "k < length (docs s)" "docs s ! k = r"
    and u: "\<And>upd. findByIdAndUpdate i upd s =
                    Inr (Some (apply_update upd r), s\<lparr>docs := (docs s)[k := apply_update upd r]\<rparr>)"
    and g: "\<And>upd. findById i (s\<lparr>docs := (docs s)[k := apply_update upd r]\<rparr>) =
                    Inr (Some (apply_update upd r))"
    by blast
  from k have same: "s\<lparr>docs := (docs s)[k := r]\<rparr> = s" by (rule same_doc_same_store)
  have p: "(\<forall>xs. body_profile b = Some xs \<longrightarrow>
              updateProfile i b s =
                (Response 200 (UserDoc (r\<lparr>profile := xs\<rparr>)),
                 s\<lparr>docs := (docs s)[k := r\<lparr>profile := xs\<rparr>]\<rparr>) \<and>
              findById i (snd (updateProfile i b s)) = Inr (Some (r\<lparr>profile := xs\<rparr>))) \<and>
           (body_profile b = None \<longrightarrow> updateProfile i b s = (Response 200 (UserDoc r), s))"
  proof (cases "body_profile b")
    case None
    with u [of "SetProfile (body_profile b)"] same show ?thesis
      by (simp add: updateProfile_def)
  next
    case (Some v)
    with u [of "SetProfile (body_profile b)"] g [of "SetProfile (body_profile b)"] show ?thesis
      by (simp add: updateProfile_def)
  qed
  have e: "(\<forall>ys. body_education b = Some ys \<longrightarrow>
              updateEducation i b s =
                (Response 200 (UserDoc (r\<lparr>education := ys\<rparr>)),
                 s\<lparr>docs := (docs s)[k := r\<lparr>education := ys\<rparr>]\<rparr>) \<and>
              findById i (snd (updateEducation i b s)) = Inr (Some (r\<lparr>education := ys\<rparr>))) \<and>
           (body_education b = None \<longrightarrow> updateEducation i b s = (Response 200 (UserDoc r), s))"
  proof (cases "body_education b")
    case None
    with u [of "SetEducation (body_education b)"] same show ?thesis
      by (simp add: updateEducation_def)
  next
    case (Some v)
    with u [of "SetEducation (body_education b)"] g [of "SetEducation (body_education b)"] show ?thesis
      by (simp add: updateEducation_def)
  qed
  have f: "(\<forall>zs. body_portfolio b = Some zs \<longrightarrow>
              updatePortfolio i b s =
                (Response 200 (UserDoc (r\<lparr>portfolio := zs\<rparr>)),
                 s\<lparr>docs := (docs s)[k := r\<lparr>portfolio := zs\<rparr>]\<rparr>) \<and>
              findById i (snd (updatePortfolio i b s)) = Inr (Some (r\<lparr>portfolio := zs\<rparr>))) \<and>
           (body_portfolio b = None \<longrightarrow> updatePortfolio i b s = (Response 200 (UserDoc r), s))"
  proof (cases "body_portfolio b")
    case None
    with u [of "SetPortfolio (body_portfolio b)"] same show ?thesis
      by (simp add: updatePortfolio_def)
  next
    case (Some v)
    with u [of "SetPortfolio (body_portfolio b)"] g [of "SetPortfolio (body_portfolio b)"] show ?thesis
      by (simp add: updatePortfolio_def)
  qed
  show ?thesis
    by (intro exI [of _ k] conjI)
      (fact k p [THEN conjunct1] p [THEN conjunct2] e [THEN conjunct1] e [THEN conjunct2]
         f [THEN conjunct1] f [THEN conjunct2])+
qed

theorem update_replaces_named_field_witness:
  "updateProfile jane_id profile_body demo_store =
     (Response 200 (UserDoc (jane\<lparr>profile := [phone]\<rparr>)),
      \<lparr>docs = [jane\<lparr>profile := [phone]\<rparr>, bob], next_id = 2\<rparr>) \<and>
   findById jane_id (snd (updateProfile jane_id profile_body demo_store)) =
     Inr (Some (jane\<lparr>profile := [phone]\<rparr>)) \<and>
   updatePortfolio jane_id profile_body demo_store = (Response 200 (UserDoc jane), demo_store) \<and>
   updateEducation jane_id profile_body demo_store = (Response 200 (UserDoc jane), demo_store)"
proof -
  have x: "body_profile profile_body = Some [phone]" and z: "body_portfolio profile_body = None"
    and y: "body_education profile_body = None"
    by (simp_all add: profile_body_def empty_body_def)
  from update_replaces_named_field [OF findById_jane, of profile_body] x y z
  obtain k where k: "k < length (docs demo_store)" "docs demo_store ! k = jane"
    and p: "updateProfile jane_id profile_body demo_store =
             (Response 200 (UserDoc (jane\<lparr>profile := [phone]\<rparr>)),
              demo_store\<lparr>docs := (docs demo_store)[k := jane\<lparr>profile := [phone]\<rparr>]\<rparr>)"
    and q: "findById jane_id (snd (updateProfile jane_id profile_body demo_store)) =
             Inr (Some (jane\<lparr>profile := [phone]\<rparr>))"
    and f: "updatePortfolio jane_id profile_body demo_store = (Response 200 (UserDoc jane), demo_store)"
    and e: "updateEducation jane_id profile_body demo_store = (Response 200 (UserDoc jane), demo_store)"
    by auto
  have "jane \<noteq> bob" by (simp add: jane_def bob_def new_UserProfile_def)
  with k have "k = 0" by (cases k) (auto simp: demo_store_def)
  with p have "updateProfile jane_id profile_body demo_store =
     (Response 200 (UserDoc (jane\<lparr>profile := [phone]\<rparr>)),
      \<lparr>docs = [jane\<lparr>profile := [phone]\<rparr>, bob], next_id = 2\<rparr>)"
    by (simp add: demo_store_def)
  with q f e show ?thesis by simp
qed

text \<open>
  C9, as stated, fails for an identifier that is not well formed: it resolves to no
  record, the store call throws, and the route's \<open>catch\<close> answers 500 "Server error",
  not 404.
\<close>

theorem update_malformed_id_counterexample:
  "findById ''abc'' demo_store = Inl CastError \<and>
   updateProfile ''abc'' profile_body demo_store =
     (Response 500 (MessageError ''Server error'' CastError), demo_store) \<and>
   status (fst (updateProfile ''abc'' profile_body demo_store)) \<noteq> 404"
  by (simp add: findById_def updateProfile_def findByIdAndUpdate_def castObjectId_abc)

text \<open>
  C9 (amended). For each of UpdateProfile, UpdateEducation and UpdatePortfolio: if the
  identifier is well formed and no stored record has it, the answer is 404 "User not
  found" (NotFoundError) and the store is unchanged; if the identifier is not well formed,
  the answer is 500 "Server error" and the store is unchanged; if the identifier resolves
  to a record, the answer is 200 with that record carrying the supplied sequence, and the
  store holds it afterwards, whatever the record's \<open>deleted\<close> flag (nothing is assumed
  about it, and the update leaves it as it was). With the key omitted the answer is 200
  with the record as it was.
\<close>

theorem update_unknown_id_or_deleted:
  "(\<forall>oid. castObjectId i = Inr oid \<and> (\<forall>u\<in>set (docs s). doc_id u \<noteq> oid) \<longrightarrow>
      updateProfile i b s = (Response 404 (Message ''User not found''), s) \<and>
      updateEducation i b s = (Response 404 (Message ''User not found''), s) \<and>
      updatePortfolio i b s = (Response 404 (Message ''User not found''), s)) \<and>
   (\<forall>e. castObjectId i = Inl e \<longrightarrow>
      updateProfile i b s = (Response 500 (MessageError ''Server error'' e), s) \<and>
      updateEducation i b s = (Response 500 (MessageError ''Server error'' e), s) \<and>
      updatePortfolio i b s = (Response 500 (MessageError ''Server error'' e), s)) \<and>
   (\<forall>r. findById i s = Inr (Some r) \<longrightarrow>
      (\<forall>xs. body_profile b = Some xs \<longrightarrow>
         fst (updateProfile i b s) = Response 200 (UserDoc (r\<lparr>profile := xs\<rparr>)) \<and>
         findById i (snd (updateProfile i b s)) = Inr (Some (r\<lparr>profile := xs\<rparr>))) \<and>
      (body_profile b = None \<longrightarrow> updateProfile i b s = (Response 200 (UserDoc r), s)) \<and>
      (\<forall>ys. body_education b = Some ys \<longrightarrow>
         fst (updateEducation i b s) = Response 200 (UserDoc (r\<lparr>education := ys\<rparr>)) \<and>
         findById i (snd (updateEducation i b s)) = Inr (Some (r\<lparr>education := ys\<rparr>))) \<and>
      (body_education b = None \<longrightarrow> updateEducation i b s = (Response 200 (UserDoc r), s)) \<and>
      (\<forall>zs. body_portfolio b = Some zs \<longrightarrow>
         fst (updatePortfolio i b s) = Response 200 (UserDoc (r\<lparr>portfolio := zs\<rparr>)) \<and>
         findById i (snd (updatePortfolio i b s)) = Inr (Some (r\<lparr>portfolio := zs\<rparr>))) \<and>
      (body_portfolio b = None \<longrightarrow> updatePortfolio i b s = (Response 200 (UserDoc r), s)))"
proof -
  have unknown: "\<forall>oid. castObjectId i = Inr oid \<and> (\<forall>u\<in>set (docs s). doc_id u \<noteq> oid) \<longrightarrow>
      updateProfile i b s = (Response 404 (Message ''User not found''), s) \<and>
      updateEducation i b s = (Response 404 (Message ''User not found''), s) \<and>
      updatePortfolio i b s = (Response 404 (Message ''User not found''), s)"
  proof (intro allI impI conjI)
    fix oid
    assume "castObjectId i = Inr oid \<and> (\<forall>u\<in>set (docs s). doc_id u \<noteq> oid)"
    then have n: "findByIdAndUpdate i upd s = Inr (None, s)" for upd
      by (simp add: findByIdAndUpdate_unknown)
    show "updateProfile i b s = (Response 404 (Message ''User not found''), s)"
      by (simp add: updateProfile_def n)
    show "updateEducation i b s = (Response 404 (Message ''User not found''), s)"
      by (simp add: updateEducation_def n)
    show "updatePortfolio i b s = (Response 404 (Message ''User not found''), s)"
      by (simp add: updatePortfolio_def n)
  qed
  have malformed: "\<forall>e. castObjectId i = Inl e \<longrightarrow>
      updateProfile i b s = (Response 500 (MessageError ''Server error'' e), s) \<and>
      updateEducation i b s = (Response 500 (MessageError ''Server error'' e), s) \<and>
      updatePortfolio i b s = (Response 500 (MessageError ''Server error'' e), s)"
  proof (intro allI impI conjI)
    fix e
    assume "castObjectId i = Inl e"
    then have m: "findByIdAndUpdate i upd s = Inl e" for upd
      by (simp add: findByIdAndUpdate_malformed)
    show "updateProfile i b s = (Response 500 (MessageError ''Server error'' e), s)"
      by (simp add: updateProfile_def m)
    show "updateEducation i b s = (Response 500 (MessageError ''Server error'' e), s)"
      by (simp add: updateEducation_def m)
    show "updatePortfolio i b s = (Response 500 (MessageError ''Server error'' e), s)"
      by (simp add: updatePortfolio_def m)
  qed
  have known: "\<forall>r. findById i s = Inr (Some r) \<longrightarrow>
      (\<forall>xs. body_profile b = Some xs \<longrightarrow>
         fst (updateProfile i b s) = Response 200 (UserDoc (r\<lparr>profile := xs\<rparr>)) \<and>
         findById i (snd (updateProfile i b s)) = Inr (Some (r\<lparr>profile := xs\<rparr>))) \<and>
      (body_profile b = None \<longrightarrow> updateProfile i b s = (Response 200 (UserDoc r), s)) \<and>
      (\<forall>ys. body_education b = Some ys \<longrightarrow>
         fst (updateEducation i b s) = Response 200 (UserDoc (r\<lparr>education := ys\<rparr>)) \<and>
         findById i (snd (updateEducation i b s)) = Inr (Some (r\<lparr>education := ys\<rparr>))) \<and>
      (body_education b = None \<longrightarrow> updateEducation i b s = (Response 200 (UserDoc r), s)) \<and>
      (\<forall>zs. body_portfolio b = Some zs \<longrightarrow>
         fst (updatePortfolio i b s) = Response 200 (UserDoc (r\<lparr>portfolio := zs\<rparr>)) \<and>
         findById i (snd (updatePortfolio i b s)) = Inr (Some (r\<lparr>portfolio := zs\<rparr>))) \<and>
      (body_portfolio b = None \<longrightarrow> updatePortfolio i b s = (Response 200 (UserDoc r), s))"
  proof (rule allI, rule impI)
    fix r
    assume a: "findById i s = Inr (Some r)"
    from findByIdAndUpdate_resolved [OF a]
    obtain k where k: "k < length (docs s)" "docs s ! k = r"
      and u: "\<And>upd. findByIdAndUpdate i upd s =
                      Inr (Some (apply_update upd r), s\<lparr>docs := (docs s)[k := apply_update upd r]\<rparr>)"
      and g: "\<And>upd. findById i (s\<lparr>docs := (docs s)[k := apply_update upd r]\<rparr>) =
                      Inr (Some (apply_update upd r))"
      by blast
    from k have same: "s\<lparr>docs := (docs s)[k := r]\<rparr> = s" by (rule same_doc_same_store)
    have p: "(\<forall>xs. body_profile b = Some xs \<longrightarrow>
           fst (updateProfile i b s) = Response 200 (UserDoc (r\<lparr>profile := xs\<rparr>)) \<and>
           findById i (snd (updateProfile i b s)) = Inr (Some (r\<lparr>profile := xs\<rparr>))) \<and>
        (body_profile b = None \<longrightarrow> updateProfile i b s = (Response 200 (UserDoc r), s))"
    proof (cases "body_profile b")
      case None
      with u [of "SetProfile (body_profile b)"] same show ?thesis
        by (simp add: updateProfile_def)
    next
      case (Some v)
      with u [of "SetProfile (body_profile b)"] g [of "SetProfile (body_profile b)"] show ?thesis
        by (simp add: updateProfile_def)
    qed
    have e: "(\<forall>ys. body_education b = Some ys \<longrightarrow>
           fst (updateEducation i b s) = Response 200 (UserDoc (r\<lparr>education := ys\<rparr>)) \<and>
           findById i (snd (updateEducation i b s)) = Inr (Some (r\<lparr>education := ys\<rparr>))) \<and>
        (body_education b = None \<longrightarrow> updateEducation i b s = (Response 200 (UserDoc r), s))"
    proof (cases "body_education b")
      case None
      with u [of "SetEducation (body_education b)"] same show ?thesis
        by (simp add: updateEducation_def)
    next
      case (Some v)
      with u [of "SetEducation (body_education b)"] g [of "SetEducation (body_education b)"] show ?thesis
        by (simp add: updateEducation_def)
    qed
    have f: "(\<forall>zs. body_portfolio b = Some zs \<longrightarrow>
           fst (updatePortfolio i b s) = Response 200 (UserDoc (r\<lparr>portfolio := zs\<rparr>)) \<and>
           findById i (snd (updatePortfolio i b s)) = Inr (Some (r\<lparr>portfolio := zs\<rparr>))) \<and>
        (body_portfolio b = None \<longrightarrow> updatePortfolio i b s = (Response 200 (UserDoc r), s))"
    proof (cases "body_portfolio b")
      case None
      with u [of "SetPortfolio (body_portfolio b)"] same show ?thesis
        by (simp add: updatePortfolio_def)
    next
      case (Some v)
      with u [of "SetPortfolio (body_portfolio b)"] g [of "SetPortfolio (body_portfolio b)"] show ?thesis
        by (simp add: updatePortfolio_def)
    qed
    show "(\<forall>xs. body_profile b = Some xs \<longrightarrow>
         fst (updateProfile i b s) = Response 200 (UserDoc (r\<lparr>profile := xs\<rparr>)) \<and>
         findById i (snd (updateProfile i b s)) = Inr (Some (r\<lparr>profile := xs\<rparr>))) \<and>
      (body_profile b = None \<longrightarrow> updateProfile i b s = (Response 200 (UserDoc r), s)) \<and>
      (\<forall>ys. body_education b = Some ys \<longrightarrow>
         fst (updateEducation i b s) = Response 200 (UserDoc (r\<lparr>education := ys\<rparr>)) \<and>
         findById i (snd (updateEducation i b s)) = Inr (Some (r\<lparr>education := ys\<rparr>))) \<and>
      (body_education b = None \<longrightarrow> updateEducation i b s = (Response 200 (UserDoc r), s)) \<and>
      (\<forall>zs. body_portfolio b = Some zs \<longrightarrow>
         fst (updatePortfolio i b s) = Response 200 (UserDoc (r\<lparr>portfolio := zs\<rparr>)) \<and>
         findById i (snd (updatePortfolio i b s)) = Inr (Some (r\<lparr>portfolio := zs\<rparr>))) \<and>
      (body_portfolio b = None \<longrightarrow> updatePortfolio i b s = (Response 200 (UserDoc r), s))"
      by (intro conjI)
        (fact p [THEN conjunct1] p [THEN conjunct2] e [THEN conjunct1] e [THEN conjunct2]
           f [THEN conjunct1] f [THEN conjunct2])+
  qed
  show ?thesis by (rule conjI [OF unknown conjI [OF malformed known]])
qed

theorem update_unknown_id_or_deleted_witness:
  "updateProfile ''000000000000000000000007'' profile_body demo_store =
     (Response 404 (Message ''User not found''), demo_store) \<and>
   updateProfile ''abc'' profile_body demo_store =
     (Response 500 (MessageError ''Server error'' CastError), demo_store) \<and>
   deleted bob \<and>
   fst (updateProfile bob_id profile_body demo_store) =
     Response 200 (UserDoc (bob\<lparr>profile := [phone]\<rparr>)) \<and>
   findById bob_id (snd (updateProfile bob_id profile_body demo_store)) =
     Inr (Some (bob\<lparr>profile := [phone]\<rparr>))"
proof -
  have c: "castObjectId ''000000000000000000000007'' = Inr 7"
    by (simp add: castObjectId_def hex_digit_def)
  have n: "\<forall>u\<in>set (docs demo_store). doc_id u \<noteq> 7"
    by (simp add: demo_store_def jane_def bob_def new_UserProfile_def)
  have d: "deleted bob" by (simp add: bob_def)
  have x: "body_profile profile_body = Some [phone]"
    by (simp add: profile_body_def empty_body_def)
  from update_unknown_id_or_deleted [of "''000000000000000000000007''" demo_store profile_body] c n
  have a: "updateProfile ''000000000000000000000007'' profile_body demo_store =
      (Response 404 (Message ''User not found''), demo_store)"
    by simp
  from update_unknown_id_or_deleted [of "''abc''" demo_store profile_body] castObjectId_abc
  have m: "updateProfile ''abc'' profile_body demo_store =
      (Response 500 (MessageError ''Server error'' CastError), demo_store)"
    by simp
  from update_unknown_id_or_deleted [of bob_id demo_store profile_body] findById_bob x
  have "fst (updateProfile bob_id profile_body demo_store) =
          Response 200 (UserDoc (bob\<lparr>profile := [phone]\<rparr>)) \<and>
        findById bob_id (snd (updateProfile bob_id profile_body demo_store)) =
          Inr (Some (bob\<lparr>profile := [phone]\<rparr>))"
    by simp
  with a m d show ?thesis by simp
qed

subsection \<open>Listing and soft deletion\<close>

text \<open>
  C5. ListActiveUsers answers 200 with exactly the records whose \<open>deleted\<close> flag is
  false, in store order: a record is listed if and only if it is stored and not deleted.
  The store is unchanged.
\<close>

theorem listUsers_exactly_active:
  "\<exists>us. listUsers s = (Response 200 (AllUsers us), s) \<and>
         us = filter (\<lambda>u. \<not> deleted u) (docs s) \<and>
         (\<forall>u. u \<in> set us \<longleftrightarrow> u \<in> set (docs s) \<and> \<not> deleted u)"
  by (simp add: listUsers_def find_all_def)

theorem listUsers_exactly_active_witness:
  "listUsers demo_store = (Response 200 (AllUsers [jane]), demo_store)"
  using listUsers_exactly_active [of demo_store]
  by (auto simp: demo_store_def jane_def bob_def new_UserProfile_def)

text \<open>
  C6. SoftDelete on an identifier that resolves to \<open>r\<close> (the \<open>:id\<close> string names an
  identifier and the store finds \<open>r\<close> under it) answers 200 with \<open>r\<close> marked deleted,
  whatever \<open>r\<close>'s flag was, and stores it; a second SoftDelete on the same identifier
  gives the same response and leaves the store as the first one left it.
\<close>

theorem softDelete_idempotent:
  assumes "findById i s = Inr (Some r)"
  shows "\<exists>s1. softDelete i s =
              (Response 200 (MessageUser ''User soft deleted'' (r\<lparr>deleted := True\<rparr>)), s1) \<and>
            findById i s1 = Inr (Some (r\<lparr>deleted := True\<rparr>)) \<and>
            softDelete i s1 =
              (Response 200 (MessageUser ''User soft deleted'' (r\<lparr>deleted := True\<rparr>)), s1)"
proof -
  let ?r = "r\<lparr>deleted := True\<rparr>"
  from findByIdAndUpdate_resolved [OF assms]
  obtain k where
    u: "\<And>upd. findByIdAndUpdate i upd s =
                Inr (Some (apply_update upd r), s\<lparr>docs := (docs s)[k := apply_update upd r]\<rparr>)"
    and g: "\<And>upd. findById i (s\<lparr>docs := (docs s)[k := apply_update upd r]\<rparr>) =
                Inr (Some (apply_update upd r))"
    by blast
  define s1 where "s1 = s\<lparr>docs := (docs s)[k := ?r]\<rparr>"
  from u [of "SetDeleted True"] have first: "findByIdAndUpdate i (SetDeleted True) s = Inr (Some ?r, s1)"
    by (simp add: s1_def)
  from g [of "SetDeleted True"] have fetch: "findById i s1 = Inr (Some ?r)"
    by (simp add: s1_def)
  from findByIdAndUpdate_resolved [OF fetch]
  obtain j where j: "j < length (docs s1)" "docs s1 ! j = ?r"
    and u1: "\<And>upd. findByIdAndUpdate i upd s1 =
                Inr (Some (apply_update upd ?r), s1\<lparr>docs := (docs s1)[j := apply_update upd ?r]\<rparr>)"
    by blast
  from j have "s1\<lparr>docs := (docs s1)[j := ?r]\<rparr> = s1" by (rule same_doc_same_store)
  with u1 [of "SetDeleted True"] have second: "findByIdAndUpdate i (SetDeleted True) s1 = Inr (Some ?r, s1)"
    by simp
  from first second fetch show ?thesis by (auto simp: softDelete_def)
qed

theorem softDelete_idempotent_witness:
  "\<not> deleted jane \<and>
   (\<exists>s1. softDelete jane_id demo_store =
            (Response 200 (MessageUser ''User soft deleted'' (jane\<lparr>deleted := True\<rparr>)), s1) \<and>
          findById jane_id s1 = Inr (Some (jane\<lparr>deleted := True\<rparr>)) \<and>
          softDelete jane_id s1 =
            (Response 200 (MessageUser ''User soft deleted'' (jane\<lparr>deleted := True\<rparr>)), s1))"
  using softDelete_idempotent [OF findById_jane] by (simp add: jane_def new_UserProfile_def)

end
